theory Spec2Isabelle
  imports Complex_Main "HOL-Library.Multiset"
begin

section \<open>Data model (src/types/database.ts)\<close>

text \<open>
  \<^verbatim>\<open>DailyRecord\<close> as declared in the source, built in three steps so that the two
  \<^verbatim>\<open>Omit<DailyRecord, ...>\<close> types of the code are records too:
  \<^item> \<open>RecordData\<close> is \<^verbatim>\<open>Omit<DailyRecord, 'id' | 'user_id' | 'created_at' | 'updated_at'>\<close>,
    the argument of \<^verbatim>\<open>createRecord\<close>;
  \<^item> \<open>DailyRecordInsert\<close> is \<^verbatim>\<open>Omit<DailyRecord, 'id' | 'created_at' | 'updated_at'>\<close>,
    the argument of \<^verbatim>\<open>SupabaseService.createDailyRecord\<close>;
  \<^item> \<open>DailyRecord\<close> is the full row.
  The optional fields \<^verbatim>\<open>id\<close> and \<^verbatim>\<open>notes\<close> are options; \<^verbatim>\<open>id\<close> is named \<open>rec_id\<close>
  because \<open>id\<close> is the identity function of HOL, and \<^verbatim>\<open>notes\<close> is named \<open>notes_text\<close>
  because it is a keyword. \<^verbatim>\<open>capsules\<close> is the integer column of the backend.
\<close>

record RecordData =
  date :: string
  capsules :: int
  time :: string
  notes_text :: "string option"
  completed :: bool

record DailyRecordInsert = RecordData +
  user_id :: string

record DailyRecord = DailyRecordInsert +
  rec_id :: "string option"
  created_at :: string
  updated_at :: string

text \<open>\<^verbatim>\<open>Partial<DailyRecord>\<close>: the fields present, by name, with their JSON text.\<close>

type_synonym PartialDailyRecord = "(string \<times> string) list"

datatype Theme = Light | Dark

datatype Language = En | Pt

text \<open>
  \<^verbatim>\<open>UserSettings\<close>; \<open>UserSettingsInsert\<close> is \<^verbatim>\<open>Omit<UserSettings, 'created_at' | 'updated_at'>\<close>.
  The fields that share a name with a field of \<open>DailyRecord\<close> carry the prefix \<open>settings_\<close>.
\<close>

record UserSettingsInsert =
  settings_user_id :: string
  notifications :: bool
  reminder_time :: string
  daily_goal :: int
  weekly_goal :: int
  theme :: Theme
  language :: Language

record UserSettings = UserSettingsInsert +
  settings_created_at :: string
  settings_updated_at :: string

text \<open>The one column of \<^verbatim>\<open>user_profiles\<close> that \<^verbatim>\<open>hasUserSeenTutorial\<close> selects.\<close>

record TutorialRow =
  has_seen_tutorial :: "bool option"

section \<open>The platform's Date object\<close>

text \<open>
  The statistics code uses the JavaScript \<^verbatim>\<open>Date\<close> object, which is not code of the
  repository. An instant is the integer \<^verbatim>\<open>getTime()\<close> returns (milliseconds since the
  epoch). Two things are parameters of every function below:
  \<^item> \<open>parse\<close>, the instant \<^verbatim>\<open>new Date(s)\<close> denotes for the date string \<open>s\<close>. For a
    date-only string \<^verbatim>\<open>YYYY-MM-DD\<close> the language fixes it: midnight UTC of that day;
  \<^item> \<open>tz\<close>, the offset in milliseconds of local time from UTC.
  \<^verbatim>\<open>toDateString()\<close> prints weekday, month, day and year of the local calendar day,
  so two such strings are equal exactly when the local day numbers are equal:
  \<open>toDateString\<close> returns that day number. \<^verbatim>\<open>d.setDate(d.getDate() - i)\<close> moves \<open>d\<close>
  back by \<open>i\<close> calendar days and keeps the time of day.

  The range of this model: date strings that parse (an \<^verbatim>\<open>Invalid Date\<close> has no
  counterpart), and zones whose offset is fixed (no daylight saving).
\<close>

type_synonym instant = int

definition msPerDay :: int where
  "msPerDay = 86400000"

definition toDateString :: "int \<Rightarrow> instant \<Rightarrow> int" where
  "toDateString tz t = (t + tz) div msPerDay"

definition setDateBack :: "instant \<Rightarrow> nat \<Rightarrow> instant" where
  "setDateBack t i = t - int i * msPerDay"

section \<open>Statistics engine (useFirebaseStats, useMonthlyProgress)\<close>

record Stats =
  totalDays :: nat
  currentStreak :: nat
  averageCapsules :: real
  completionRate :: real
  totalCapsules :: int

text \<open>
  The streak loop of \<^verbatim>\<open>calculateStats\<close>:
  \<^verbatim>\<open>for (let i = 0; i < sortedRecords.length; i++) { ... if (recordDate.toDateString() ===
  expectedDate.toDateString()) currentStreak++; else break; }\<close>
  The list argument is the part of \<^verbatim>\<open>sortedRecords\<close> from index \<open>i\<close> on.
\<close>

fun streakLoop :: "(string \<Rightarrow> instant) \<Rightarrow> int \<Rightarrow> instant \<Rightarrow> nat \<Rightarrow> DailyRecord list \<Rightarrow> nat \<Rightarrow> nat" where
  "streakLoop parse tz now i [] streak = streak"
| "streakLoop parse tz now i (r # rs) streak =
     (let recordDate = parse (date r);
          expectedDate = setDateBack now i
      in if toDateString tz recordDate = toDateString tz expectedDate
         then streakLoop parse tz now (Suc i) rs (Suc streak)
         else streak)"

text \<open>
  \<^verbatim>\<open>completedRecords.sort((a, b) => new Date(b.date).getTime() - new Date(a.date).getTime())\<close>:
  a stable sort, descending by instant.
\<close>

definition sortedRecords :: "(string \<Rightarrow> instant) \<Rightarrow> DailyRecord list \<Rightarrow> DailyRecord list" where
  "sortedRecords parse completedRecords = sort_key (\<lambda>r. - parse (date r)) completedRecords"

text \<open>
  The window filter shared by \<^verbatim>\<open>calculateStats\<close> and \<^verbatim>\<open>calculateMonthlyProgress\<close>:
  \<^verbatim>\<open>records.filter(r => new Date(r.date) >= thirtyDaysAgo)\<close>.
\<close>

definition thirtyDaysAgo :: "instant \<Rightarrow> instant" where
  "thirtyDaysAgo now = setDateBack now 30"

definition last30DaysRecords :: "(string \<Rightarrow> instant) \<Rightarrow> instant \<Rightarrow> DailyRecord list \<Rightarrow> DailyRecord list" where
  "last30DaysRecords parse now records =
     filter (\<lambda>r. parse (date r) \<ge> thirtyDaysAgo now) records"

definition calculateStats :: "(string \<Rightarrow> instant) \<Rightarrow> int \<Rightarrow> instant \<Rightarrow> DailyRecord list \<Rightarrow> Stats" where
  "calculateStats parse tz now records =
     (let completedRecords = filter completed records;
          totalDays = length completedRecords;
          totalCapsules = foldl (\<lambda>sum r. sum + capsules r) 0 completedRecords;
          averageCapsules = (if totalDays > 0 then real_of_int totalCapsules / real totalDays else 0);
          currentStreak = streakLoop parse tz now 0 (sortedRecords parse completedRecords) 0;
          completedLast30Days = length (filter completed (last30DaysRecords parse now records));
          completionRate = (real completedLast30Days / 30) * 100
      in \<lparr> totalDays = totalDays,
           currentStreak = currentStreak,
           averageCapsules = averageCapsules,
           completionRate = completionRate,
           totalCapsules = totalCapsules \<rparr>)"

record Progress =
  p_completionRate :: real
  p_completedDays :: nat
  p_totalDays :: nat

definition calculateMonthlyProgress :: "(string \<Rightarrow> instant) \<Rightarrow> instant \<Rightarrow> DailyRecord list \<Rightarrow> Progress" where
  "calculateMonthlyProgress parse now records =
     (let completedDays = length (filter completed (last30DaysRecords parse now records));
          completionRate = (real completedDays / 30) * 100
      in \<lparr> p_completionRate = completionRate,
           p_completedDays = completedDays,
           p_totalDays = 30 \<rparr>)"

section \<open>Backend gateway (src/services/SupabaseService.ts)\<close>

text \<open>
  The hosted backend is outside the repository. What a query returns is a parameter of the
  service functions: the \<^verbatim>\<open>{ data, error }\<close> object of the client library, where
  \<open>error\<close>, when present, is the \<^verbatim>\<open>code\<close> of the error object. Thrown values are
  either such an error object or a \<^verbatim>\<open>new Error(message)\<close>.
\<close>

record 'a Response =
  data :: "'a option"
  error :: "string option"

datatype exn = PostgrestError string | JsError string

definition createDailyRecord :: "DailyRecord Response \<Rightarrow> exn + string option" where
  "createDailyRecord resp =
     (case error resp of
        Some c \<Rightarrow> Inl (PostgrestError c)
      | None \<Rightarrow>
          (case data resp of
             None \<Rightarrow> Inl (JsError ''No data returned from insert'')
           | Some d \<Rightarrow> Inr (rec_id d)))"

definition getDailyRecordByDate :: "DailyRecord Response \<Rightarrow> exn + DailyRecord option" where
  "getDailyRecordByDate resp =
     (case error resp of
        Some c \<Rightarrow> if c \<noteq> ''PGRST116'' then Inl (PostgrestError c) else Inr (data resp)
      | None \<Rightarrow> Inr (data resp))"

definition updateDailyRecord :: "string option \<Rightarrow> exn + unit" where
  "updateDailyRecord err = (case err of Some c \<Rightarrow> Inl (PostgrestError c) | None \<Rightarrow> Inr ())"

definition deleteDailyRecord :: "string option \<Rightarrow> exn + unit" where
  "deleteDailyRecord err = (case err of Some c \<Rightarrow> Inl (PostgrestError c) | None \<Rightarrow> Inr ())"

text \<open>
  \<^verbatim>\<open>hasUserSeenTutorial\<close>: the body of its \<^verbatim>\<open>try\<close>, then the function with its
  \<^verbatim>\<open>catch\<close>, which returns \<^verbatim>\<open>true\<close>. \<^verbatim>\<open>data?.has_seen_tutorial || false\<close> is false
  when the row is absent, when the field is absent and when the field is false.
\<close>

definition hasUserSeenTutorial_try :: "TutorialRow Response \<Rightarrow> exn + bool" where
  "hasUserSeenTutorial_try resp =
     (case error resp of
        Some c \<Rightarrow>
          if c \<noteq> ''PGRST116'' then Inl (PostgrestError c)
          else Inr (case data resp of None \<Rightarrow> False
                    | Some row \<Rightarrow> (case has_seen_tutorial row of None \<Rightarrow> False | Some b \<Rightarrow> b))
      | None \<Rightarrow>
          Inr (case data resp of None \<Rightarrow> False
               | Some row \<Rightarrow> (case has_seen_tutorial row of None \<Rightarrow> False | Some b \<Rightarrow> b)))"

definition hasUserSeenTutorial :: "TutorialRow Response \<Rightarrow> bool" where
  "hasUserSeenTutorial resp =
     (case hasUserSeenTutorial_try resp of Inl e \<Rightarrow> True | Inr hasSeenTutorial \<Rightarrow> hasSeenTutorial)"

definition markTutorialAsSeen :: "string option \<Rightarrow> exn + unit" where
  "markTutorialAsSeen err = (case err of Some c \<Rightarrow> Inl (PostgrestError c) | None \<Rightarrow> Inr ())"

definition createUserSettings :: "string option \<Rightarrow> exn + unit" where
  "createUserSettings err = (case err of Some c \<Rightarrow> Inl (PostgrestError c) | None \<Rightarrow> Inr ())"

definition defaultSettings :: "string \<Rightarrow> UserSettingsInsert" where
  "defaultSettings userId =
     \<lparr> settings_user_id = userId,
       notifications = True,
       reminder_time = ''09:00'',
       daily_goal = 2,
       weekly_goal = 14,
       theme = Light,
       language = En \<rparr>"

text \<open>
  \<^verbatim>\<open>getUserSettings(userId)\<close>. \<open>resp\<close> is the answer to the select, \<open>insertErr\<close> the
  answer to the insert of \<^verbatim>\<open>createUserSettings\<close> (used only when the insert is issued) and
  \<open>now1\<close>, \<open>now2\<close> the two \<^verbatim>\<open>new Date().toISOString()\<close>. The second component of
  the result lists the rows sent to \<^verbatim>\<open>insert\<close>.
\<close>

definition getUserSettings ::
  "string \<Rightarrow> UserSettings Response \<Rightarrow> string option \<Rightarrow> string \<Rightarrow> string
     \<Rightarrow> (exn + UserSettings option) \<times> UserSettingsInsert list" where
  "getUserSettings userId resp insertErr now1 now2 =
     (case (case error resp of
              Some c \<Rightarrow> if c \<noteq> ''PGRST116'' then Some c else None
            | None \<Rightarrow> None) of
        Some c \<Rightarrow> (Inl (PostgrestError c), [])
      | None \<Rightarrow>
          (case data resp of
             None \<Rightarrow>
               (case createUserSettings insertErr of
                  Inl e \<Rightarrow> (Inl e, [defaultSettings userId])
                | Inr u \<Rightarrow>
                    (Inr (Some (UserSettingsInsert.extend (defaultSettings userId)
                                 (UserSettings.fields now1 now2))),
                     [defaultSettings userId]))
           | Some d \<Rightarrow> (Inr (Some d), [])))"

section \<open>Record store (useFirebaseDailyRecords, FirebaseRecordsProvider)\<close>

datatype SyncStatus = Synced | Syncing | SyncError

text \<open>Requests sent to the backend, and callbacks handed to \<^verbatim>\<open>setTimeout\<close>.\<close>

datatype Request =
    InsertDailyRecord string RecordData
  | SelectDailyRecordByDate string string
  | UpdateDailyRecord string PartialDailyRecord
  | DeleteDailyRecord string

datatype Task = RetryCreate string RecordData | LogOnly

text \<open>
  The state of a record store: the four state variables of the hook and of the provider,
  and what they did to the outside: the requests issued, the callbacks pending with their
  delay in milliseconds, the alerts shown, and the milliseconds spent in awaited delays.
\<close>

record Store =
  records :: "DailyRecord list"
  loading :: bool
  error_text :: "string option"
  syncStatus :: SyncStatus
  requests :: "Request list"
  timers :: "(nat \<times> Task) list"
  alerts :: "(string \<times> string) list"
  waited :: nat

definition initialStore :: Store where
  "initialStore =
     \<lparr> records = [], loading = True, error_text = None, syncStatus = Synced,
       requests = [], timers = [], alerts = [], waited = 0 \<rparr>"

text \<open>The callback of \<^verbatim>\<open>subscribeToDailyRecords\<close>, the same in both stores.\<close>

definition onSnapshot :: "DailyRecord list \<Rightarrow> Store \<Rightarrow> Store" where
  "onSnapshot newRecords st =
     st\<lparr> records := newRecords, loading := False, error_text := None, syncStatus := Synced,
         timers := timers st @ [(100, LogOnly)] \<rparr>"

subsection \<open>useFirebaseDailyRecords\<close>

text \<open>The \<^verbatim>\<open>catch\<close> block of \<^verbatim>\<open>createRecord\<close> in the hook.\<close>

definition hook_createRecord_catch :: "string \<Rightarrow> RecordData \<Rightarrow> exn \<Rightarrow> Store \<Rightarrow> (exn + unit) \<times> Store" where
  "hook_createRecord_catch uid recordData e st =
     (Inl e, st\<lparr> syncStatus := SyncError,
                timers := timers st @ [(2000, RetryCreate uid recordData)] \<rparr>)"

text \<open>
  \<^verbatim>\<open>createRecord\<close> of the hook. \<open>createResp\<close> answers the insert and \<open>verifyResp\<close>
  the read after the awaited second.
\<close>

definition hook_createRecord ::
  "string option \<Rightarrow> RecordData \<Rightarrow> DailyRecord Response \<Rightarrow> DailyRecord Response \<Rightarrow> Store
     \<Rightarrow> (exn + unit) \<times> Store" where
  "hook_createRecord user recordData createResp verifyResp st =
     (case user of
        None \<Rightarrow> (Inl (JsError ''No authenticated user''), st)
      | Some uid \<Rightarrow>
          (let st1 = st\<lparr> syncStatus := Syncing,
                         requests := requests st @ [InsertDailyRecord uid recordData] \<rparr>
           in case createDailyRecord createResp of
                Inl e \<Rightarrow> hook_createRecord_catch uid recordData e st1
              | Inr new_id \<Rightarrow>
                  (let st2 = st1\<lparr> syncStatus := Synced,
                                  waited := waited st1 + 1000,
                                  requests := requests st1
                                     @ [SelectDailyRecordByDate uid (date recordData)] \<rparr>
                   in case getDailyRecordByDate verifyResp of
                        Inl e \<Rightarrow> hook_createRecord_catch uid recordData e st2
                      | Inr savedRecord \<Rightarrow> (Inr (), st2))))"

text \<open>The title and the message of the \<^verbatim>\<open>Alert.alert\<close> of the retry.\<close>

definition syncAlert :: "string \<times> string" where
  "syncAlert = (''Sync Error'',
      ''Failed to save your data. Please check your internet connection and try again.'')"

text \<open>What a pending callback does when it runs; \<open>resp\<close> answers its insert.\<close>

definition runTask :: "Task \<Rightarrow> DailyRecord Response \<Rightarrow> Store \<Rightarrow> Store" where
  "runTask task resp st =
     (case task of
        LogOnly \<Rightarrow> st
      | RetryCreate uid recordData \<Rightarrow>
          (let st1 = st\<lparr> syncStatus := Syncing,
                         requests := requests st @ [InsertDailyRecord uid recordData] \<rparr>
           in case createDailyRecord resp of
                Inr new_id \<Rightarrow> st1\<lparr> syncStatus := Synced \<rparr>
              | Inl retryError \<Rightarrow>
                  st1\<lparr> syncStatus := SyncError,
                       alerts := alerts st1 @ [syncAlert] \<rparr>))"

definition fireTimer :: "DailyRecord Response \<Rightarrow> Store \<Rightarrow> Store" where
  "fireTimer resp st =
     (case timers st of
        [] \<Rightarrow> st
      | (delay, task) # rest \<Rightarrow> runTask task resp (st\<lparr> timers := rest \<rparr>))"

definition hook_updateRecord :: "string \<Rightarrow> PartialDailyRecord \<Rightarrow> string option \<Rightarrow> Store \<Rightarrow> (exn + unit) \<times> Store" where
  "hook_updateRecord recordId updates err st =
     (let st1 = st\<lparr> syncStatus := Syncing,
                    requests := requests st @ [UpdateDailyRecord recordId updates] \<rparr>
      in case updateDailyRecord err of
           Inr u \<Rightarrow> (Inr (), st1\<lparr> syncStatus := Synced, waited := waited st1 + 1500 \<rparr>)
         | Inl e \<Rightarrow> (Inl e, st1\<lparr> syncStatus := SyncError \<rparr>))"

definition hook_deleteRecord :: "string \<Rightarrow> string option \<Rightarrow> Store \<Rightarrow> (exn + unit) \<times> Store" where
  "hook_deleteRecord recordId err st =
     (let st1 = st\<lparr> syncStatus := Syncing,
                    requests := requests st @ [DeleteDailyRecord recordId] \<rparr>
      in case deleteDailyRecord err of
           Inr u \<Rightarrow> (Inr (), st1\<lparr> syncStatus := Synced \<rparr>)
         | Inl e \<Rightarrow> (Inl e, st1\<lparr> syncStatus := SyncError \<rparr>))"

text \<open>
  \<^verbatim>\<open>getRecordByDate\<close>: the body of the \<^verbatim>\<open>try\<close>, and the function with the early
  return for no user and the \<^verbatim>\<open>catch\<close> that returns \<^verbatim>\<open>null\<close>. \<open>Inl\<close> is a value thrown
  to the caller.
\<close>

definition hook_getRecordByDate_try ::
  "string \<Rightarrow> string \<Rightarrow> DailyRecord Response \<Rightarrow> Store \<Rightarrow> (exn + DailyRecord option) \<times> Store" where
  "hook_getRecordByDate_try uid d resp st =
     (case find (\<lambda>r. date r = d) (records st) of
        Some existingRecord \<Rightarrow> (Inr (Some existingRecord), st)
      | None \<Rightarrow>
          (getDailyRecordByDate resp,
           st\<lparr> requests := requests st @ [SelectDailyRecordByDate uid d] \<rparr>))"

definition hook_getRecordByDate ::
  "string option \<Rightarrow> string \<Rightarrow> DailyRecord Response \<Rightarrow> Store \<Rightarrow> (exn + DailyRecord option) \<times> Store" where
  "hook_getRecordByDate user d resp st =
     (case user of
        None \<Rightarrow> (Inr None, st)
      | Some uid \<Rightarrow>
          (case hook_getRecordByDate_try uid d resp st of
             (Inl e, st') \<Rightarrow> (Inr None, st')
           | (Inr supabaseRecord, st') \<Rightarrow> (Inr supabaseRecord, st')))"

subsection \<open>FirebaseRecordsProvider\<close>

definition ctx_createRecord ::
  "string option \<Rightarrow> RecordData \<Rightarrow> DailyRecord Response \<Rightarrow> Store \<Rightarrow> (exn + unit) \<times> Store" where
  "ctx_createRecord user recordData createResp st =
     (case user of
        None \<Rightarrow> (Inl (JsError ''No authenticated user''), st)
      | Some uid \<Rightarrow>
          (let st1 = st\<lparr> syncStatus := Syncing,
                         requests := requests st @ [InsertDailyRecord uid recordData] \<rparr>
           in case createDailyRecord createResp of
                Inr new_id \<Rightarrow> (Inr (), st1)
              | Inl e \<Rightarrow> (Inl e, st1\<lparr> syncStatus := SyncError \<rparr>)))"

definition ctx_updateRecord :: "string \<Rightarrow> PartialDailyRecord \<Rightarrow> string option \<Rightarrow> Store \<Rightarrow> (exn + unit) \<times> Store" where
  "ctx_updateRecord recordId updates err st =
     (let st1 = st\<lparr> syncStatus := Syncing,
                    requests := requests st @ [UpdateDailyRecord recordId updates] \<rparr>
      in case updateDailyRecord err of
           Inr u \<Rightarrow> (Inr (), st1\<lparr> syncStatus := Synced \<rparr>)
         | Inl e \<Rightarrow> (Inl e, st1\<lparr> syncStatus := SyncError \<rparr>))"

definition ctx_deleteRecord :: "string \<Rightarrow> string option \<Rightarrow> Store \<Rightarrow> (exn + unit) \<times> Store" where
  "ctx_deleteRecord recordId err st =
     (let st1 = st\<lparr> syncStatus := Syncing,
                    requests := requests st @ [DeleteDailyRecord recordId] \<rparr>
      in case deleteDailyRecord err of
           Inr u \<Rightarrow> (Inr (), st1\<lparr> syncStatus := Synced \<rparr>)
         | Inl e \<Rightarrow> (Inl e, st1\<lparr> syncStatus := SyncError \<rparr>))"

definition ctx_getRecordByDate_try ::
  "string \<Rightarrow> string \<Rightarrow> DailyRecord Response \<Rightarrow> Store \<Rightarrow> (exn + DailyRecord option) \<times> Store" where
  "ctx_getRecordByDate_try uid d resp st =
     (case find (\<lambda>r. date r = d) (records st) of
        Some existingRecord \<Rightarrow> (Inr (Some existingRecord), st)
      | None \<Rightarrow>
          (getDailyRecordByDate resp,
           st\<lparr> requests := requests st @ [SelectDailyRecordByDate uid d] \<rparr>))"

definition ctx_getRecordByDate ::
  "string option \<Rightarrow> string \<Rightarrow> DailyRecord Response \<Rightarrow> Store \<Rightarrow> (exn + DailyRecord option) \<times> Store" where
  "ctx_getRecordByDate user d resp st =
     (case user of
        None \<Rightarrow> (Inr None, st)
      | Some uid \<Rightarrow>
          (case ctx_getRecordByDate_try uid d resp st of
             (Inl e, st') \<Rightarrow> (Inr None, st')
           | (Inr supabaseRecord, st') \<Rightarrow> (Inr supabaseRecord, st')))"

section \<open>Tutorial gate (src/hooks/useTutorial.ts)\<close>

text \<open>
  The state of the gate: the two state variables of the hook and the persisted
  \<^verbatim>\<open>has_seen_tutorial\<close> field of the user's profile, which a successful update writes.
\<close>

record TutorialGate =
  showTutorial :: bool
  gate_loading :: bool
  persisted_has_seen_tutorial :: bool

text \<open>
  \<^verbatim>\<open>checkTutorialStatus\<close>. \<open>seen\<close> is what the awaited
  \<^verbatim>\<open>SupabaseService.hasUserSeenTutorial(user.id)\<close> gives: a boolean, or a thrown value
  that the \<^verbatim>\<open>catch\<close> of this function handles. The \<^verbatim>\<open>finally\<close> clears the loading flag.
\<close>

definition checkTutorialStatus :: "string option \<Rightarrow> bool \<Rightarrow> exn + bool \<Rightarrow> TutorialGate \<Rightarrow> TutorialGate" where
  "checkTutorialStatus user isAuthenticated seen g =
     (if user = None \<or> \<not> isAuthenticated
      then g\<lparr> showTutorial := False, gate_loading := False \<rparr>
      else
        (case seen of
           Inr hasSeenTutorial \<Rightarrow>
             (if hasSeenTutorial
              then g\<lparr> showTutorial := False, gate_loading := False \<rparr>
              else g\<lparr> showTutorial := True, gate_loading := False \<rparr>)
         | Inl e \<Rightarrow> g\<lparr> showTutorial := False, gate_loading := False \<rparr>))"

text \<open>\<^verbatim>\<open>completeTutorial\<close>; \<open>err\<close> answers the update of \<^verbatim>\<open>markTutorialAsSeen\<close>.\<close>

definition completeTutorial :: "string option \<Rightarrow> string option \<Rightarrow> TutorialGate \<Rightarrow> TutorialGate" where
  "completeTutorial user err g =
     (case user of
        None \<Rightarrow> g
      | Some uid \<Rightarrow>
          (case markTutorialAsSeen err of
             Inr u \<Rightarrow> g\<lparr> persisted_has_seen_tutorial := True, showTutorial := False \<rparr>
           | Inl e \<Rightarrow> g\<lparr> showTutorial := False \<rparr>))"

definition skipTutorial :: "string option \<Rightarrow> string option \<Rightarrow> TutorialGate \<Rightarrow> TutorialGate" where
  "skipTutorial user err g = completeTutorial user err g"

section \<open>Example data\<close>

text \<open>
  Concrete records, a concrete table for \<open>parse\<close> and a concrete clock, on which the
  theorems below are instantiated. The table gives each date-only string midnight UTC of
  its day (2024-01-01 is day 19723 of the epoch). Now is 2024-01-03, 10:00 UTC; local
  time is one hour ahead of UTC (\<open>tz = 3600000\<close>) where nothing else is said.
\<close>

definition exampleRecord :: "string \<Rightarrow> int \<Rightarrow> bool \<Rightarrow> DailyRecord" where
  "exampleRecord d c b =
     \<lparr> date = d, capsules = c, time = ''08:00'', notes_text = None, completed = b,
       user_id = ''u1'', rec_id = None, created_at = d, updated_at = d \<rparr>"

definition exampleParse :: "string \<Rightarrow> instant" where
  "exampleParse s =
     (case map_of
        [(''2024-01-01'', 19723 * msPerDay),
         (''2024-01-02'', 19724 * msPerDay),
         (''2024-01-02T15:30:00Z'', 19724 * msPerDay + 55800000),
         (''2024-01-03'', 19725 * msPerDay),
         (''2024-01-09'', 19731 * msPerDay),
         (''2023-12-31'', 19722 * msPerDay),
         (''2023-12-30'', 19721 * msPerDay)] s of
        Some t \<Rightarrow> t
      | None \<Rightarrow> 0)"

definition exampleNow :: instant where
  "exampleNow = 19725 * msPerDay + 36000000"

definition exampleRecords :: "DailyRecord list" where
  "exampleRecords =
     [exampleRecord ''2024-01-02T15:30:00Z'' 2 True,
      exampleRecord ''2024-01-09'' 2 False,
      exampleRecord ''2024-01-03'' 3 True,
      exampleRecord ''2024-01-01'' 1 True]"

text \<open>Three completed days in a row, 2024-01-01 to 2024-01-03, as date-only strings.\<close>

definition exampleThreeDays :: "DailyRecord list" where
  "exampleThreeDays =
     [exampleRecord ''2024-01-02'' 2 True,
      exampleRecord ''2024-01-03'' 2 True,
      exampleRecord ''2024-01-01'' 2 True]"

definition exampleFiveDays :: "DailyRecord list" where
  "exampleFiveDays =
     [exampleRecord ''2024-01-03'' 2 True,
      exampleRecord ''2024-01-02T15:30:00Z'' 2 True,
      exampleRecord ''2024-01-01'' 2 True,
      exampleRecord ''2023-12-31'' 2 True,
      exampleRecord ''2023-12-30'' 2 True]"

definition exampleFuture :: "DailyRecord list" where
  "exampleFuture = replicate 31 (exampleRecord ''2024-01-09'' 2 True)"

definition exampleData :: RecordData where
  "exampleData =
     \<lparr> date = ''2024-01-03'', capsules = 2, time = ''08:00'', notes_text = None, completed = True \<rparr>"

definition exampleFailure :: "DailyRecord Response" where
  "exampleFailure = \<lparr> data = None, error = Some ''08006'' \<rparr>"

definition exampleCreated :: "DailyRecord Response" where
  "exampleCreated =
     \<lparr> data = Some ((exampleRecord ''2024-01-03'' 2 True)\<lparr> rec_id := Some ''r1'' \<rparr>), error = None \<rparr>"

definition exampleFound :: "DailyRecord Response" where
  "exampleFound = \<lparr> data = Some (exampleRecord ''2024-02-01'' 2 True), error = None \<rparr>"

definition exampleNoRows :: "DailyRecord Response" where
  "exampleNoRows = \<lparr> data = None, error = Some ''PGRST116'' \<rparr>"

definition exampleStore :: Store where
  "exampleStore = onSnapshot exampleRecords initialStore"

definition exampleGate :: TutorialGate where
  "exampleGate = \<lparr> showTutorial = True, gate_loading = False, persisted_has_seen_tutorial = False \<rparr>"

definition exampleSettings :: UserSettings where
  "exampleSettings =
     \<lparr> settings_user_id = ''u1'', notifications = False, reminder_time = ''21:30'',
       daily_goal = 3, weekly_goal = 21, theme = Dark, language = Pt,
       settings_created_at = ''2023-12-01T00:00:00Z'', settings_updated_at = ''2023-12-24T00:00:00Z'' \<rparr>"

section \<open>Totals and average\<close>

lemma foldl_capsules: "foldl (\<lambda>sum r. sum + capsules r) a rs = a + sum_list (map capsules rs)"
  by (induction rs arbitrary: a) simp_all

text \<open>
  C4. For every record collection, totalDays is the number of records with completed = true,
  totalCapsules is the sum of the capsules field over exactly those records, and
  averageCapsules is totalCapsules / totalDays when totalDays > 0 and 0 when totalDays = 0.
\<close>

theorem C4_totals_and_average:
  "totalDays (calculateStats parse tz now rs) = length (filter completed rs)
   \<and> totalCapsules (calculateStats parse tz now rs)
       = sum_list (map capsules (filter completed rs))
   \<and> averageCapsules (calculateStats parse tz now rs)
       = (if totalDays (calculateStats parse tz now rs) = 0 then 0
          else real_of_int (totalCapsules (calculateStats parse tz now rs))
               / real (totalDays (calculateStats parse tz now rs)))"
  by (simp add: calculateStats_def Let_def foldl_capsules)

lemmas example_defs =
  exampleRecords_def exampleThreeDays_def exampleFiveDays_def exampleFuture_def
  exampleRecord_def exampleParse_def exampleNow_def msPerDay_def toDateString_def

section \<open>Current streak\<close>

lemma toDateString_mono: "a \<le> b \<Longrightarrow> toDateString tz a \<le> toDateString tz b"
  by (simp add: toDateString_def msPerDay_def zdiv_mono1)

lemma toDateString_setDateBack:
  "toDateString tz (setDateBack t i) = toDateString tz t - int i"
  by (simp add: toDateString_def setDateBack_def msPerDay_def algebra_simps)

lemma streakLoop_run:
  "map (\<lambda>r. toDateString tz (parse (date r))) rs
     = map (\<lambda>k. toDateString tz now - int k) [i..<i + length rs]
   \<Longrightarrow> streakLoop parse tz now i rs s = s + length rs"
proof (induction rs arbitrary: i s)
  case Nil
  then show ?case by simp
next
  case (Cons r rs)
  have split: "[i..<i + length (r # rs)] = i # [Suc i..<Suc i + length rs]"
    by (simp add: upt_conv_Cons del: upt_Suc)
  from Cons.prems have hd: "toDateString tz (parse (date r)) = toDateString tz now - int i"
    and tl: "map (\<lambda>r. toDateString tz (parse (date r))) rs
               = map (\<lambda>k. toDateString tz now - int k) [Suc i..<Suc i + length rs]"
    unfolding split by simp_all
  show ?case
    using Cons.IH[OF tl] hd by (simp add: toDateString_setDateBack)
qed

lemma streakLoop_days_only:
  "map (\<lambda>r. toDateString tz (parse (date r))) rs = map (\<lambda>r. toDateString tz (parse' (date r))) rs'
   \<Longrightarrow> toDateString tz now = toDateString tz now'
   \<Longrightarrow> streakLoop parse tz now i rs s = streakLoop parse' tz now' i rs' s"
proof (induction rs arbitrary: rs' i s)
  case Nil
  then show ?case by simp
next
  case (Cons r rs)
  then obtain r' rs'' where rs': "rs' = r' # rs''" by (cases rs') auto
  with Cons.prems have hd: "toDateString tz (parse (date r)) = toDateString tz (parse' (date r'))"
    and tl: "map (\<lambda>r. toDateString tz (parse (date r))) rs
               = map (\<lambda>r. toDateString tz (parse' (date r))) rs''"
    by simp_all
  show ?case
    using Cons.IH[OF tl Cons.prems(2)] hd Cons.prems(2)
    by (simp add: rs' toDateString_setDateBack)
qed

lemma sorted_days:
  "sorted (map (\<lambda>r. - toDateString tz (parse (date r))) (sortedRecords parse cs))"
proof -
  have "sorted (map (\<lambda>r. - parse (date r)) (sortedRecords parse cs))"
    unfolding sortedRecords_def by (rule sorted_sort_key)
  then have "sorted_wrt (\<lambda>a b. - parse (date a) \<le> - parse (date b)) (sortedRecords parse cs)"
    by (simp add: sorted_map)
  then have "sorted_wrt (\<lambda>a b. - toDateString tz (parse (date a)) \<le> - toDateString tz (parse (date b))) (sortedRecords parse cs)"
    by (rule sorted_wrt_mono_rel[rotated]) (simp add: toDateString_mono)
  then show ?thesis by (simp add: sorted_map)
qed

lemma mset_days_sortedRecords:
  "mset (map f (sortedRecords parse cs)) = mset (map f cs)"
  by (simp add: sortedRecords_def)

lemma sorted_unique_mset:
  fixes xs ys :: "int list"
  shows "sorted xs \<Longrightarrow> sorted ys \<Longrightarrow> mset xs = mset ys \<Longrightarrow> xs = ys"
  using properties_for_sort by metis

lemma neg_days_eq:
  "map (\<lambda>r. - f r) xs = map (\<lambda>k. - g k) ys \<Longrightarrow> map f xs = map g (ys :: nat list)"
  for f :: "'a \<Rightarrow> int"
proof -
  assume "map (\<lambda>r. - f r) xs = map (\<lambda>k. - g k) ys"
  then have "map uminus (map (\<lambda>r. - f r) xs) = map uminus (map (\<lambda>k. - g k) ys)" by simp
  then show ?thesis by (simp add: comp_def)
qed

lemma sorted_countdown: "sorted (map (\<lambda>k. - (d - int k)) [0..<n])"
  by (simp add: sorted_map sorted_wrt_iff_nth_less)

lemma currentStreak_def2:
  "currentStreak (calculateStats parse tz now rs)
     = streakLoop parse tz now 0 (sortedRecords parse (filter completed rs)) 0"
  by (simp add: calculateStats_def Let_def)

lemma streak_consecutive:
  assumes "mset (map (\<lambda>r. toDateString tz (parse (date r))) (filter completed rs))
           = mset (map (\<lambda>k. toDateString tz now - int k) [0..<n])"
  shows "currentStreak (calculateStats parse tz now rs) = n"
proof -
  let ?xs = "sortedRecords parse (filter completed rs)"
  let ?day = "\<lambda>r. toDateString tz (parse (date r))"
  have m: "mset (map (\<lambda>r. - ?day r) ?xs) = mset (map (\<lambda>k. - (toDateString tz now - int k)) [0..<n])"
  proof -
    have "mset (map (\<lambda>r. - ?day r) ?xs) = image_mset uminus (mset (map ?day (filter completed rs)))"
      by (simp add: sortedRecords_def multiset.map_comp comp_def)
    also have "\<dots> = image_mset uminus (mset (map (\<lambda>k. toDateString tz now - int k) [0..<n]))"
      using assms by simp
    also have "\<dots> = mset (map (\<lambda>k. - (toDateString tz now - int k)) [0..<n])"
      by (simp add: multiset.map_comp comp_def)
    finally show ?thesis .
  qed
  have "map (\<lambda>r. - ?day r) ?xs = map (\<lambda>k. - (toDateString tz now - int k)) [0..<n]"
    by (rule sorted_unique_mset[OF sorted_days sorted_countdown m])
  then have days: "map ?day ?xs = map (\<lambda>k. toDateString tz now - int k) [0..<n]"
    by (rule neg_days_eq)
  then have "length ?xs = n"
    using map_eq_imp_length_eq by fastforce
  with days have "map ?day ?xs = map (\<lambda>k. toDateString tz now - int k) [0..<0 + length ?xs]"
    by simp
  then have "streakLoop parse tz now 0 ?xs 0 = 0 + length ?xs"
    by (rule streakLoop_run)
  with \<open>length ?xs = n\<close> show ?thesis
    by (simp add: currentStreak_def2)
qed

lemma streak_no_today:
  assumes "\<forall>r \<in> set rs. completed r \<longrightarrow> toDateString tz (parse (date r)) \<noteq> toDateString tz now"
  shows "currentStreak (calculateStats parse tz now rs) = 0"
proof (cases "sortedRecords parse (filter completed rs)")
  case Nil
  then show ?thesis by (simp add: currentStreak_def2)
next
  case (Cons r xs)
  then have "r \<in> set (sortedRecords parse (filter completed rs))" by simp
  then have "r \<in> set rs" "completed r" by (simp_all add: sortedRecords_def)
  with assms have "toDateString tz (parse (date r)) \<noteq> toDateString tz now" by blast
  then show ?thesis
    by (simp add: currentStreak_def2 Cons setDateBack_def)
qed

lemma streak_days_only:
  assumes "\<forall>r \<in> set rs. toDateString tz (parse (date r)) = toDateString tz (parse' (date r))"
    and "toDateString tz now = toDateString tz now'"
  shows "currentStreak (calculateStats parse tz now rs) = currentStreak (calculateStats parse' tz now' rs)"
proof -
  let ?cs = "filter completed rs"
  let ?xs = "sortedRecords parse ?cs"
  let ?ys = "sortedRecords parse' ?cs"
  let ?day = "\<lambda>r. toDateString tz (parse (date r))"
  let ?day' = "\<lambda>r. toDateString tz (parse' (date r))"
  have same: "map (\<lambda>r. - ?day r) ?cs = map (\<lambda>r. - ?day' r) ?cs"
    using assms(1) by simp
  have "mset (map (\<lambda>r. - ?day r) ?xs) = mset (map (\<lambda>r. - ?day r) ?cs)"
    by (rule mset_days_sortedRecords)
  also have "\<dots> = mset (map (\<lambda>r. - ?day' r) ?cs)"
    by (simp only: same)
  also have "\<dots> = mset (map (\<lambda>r. - ?day' r) ?ys)"
    by (rule mset_days_sortedRecords[symmetric])
  finally have "map (\<lambda>r. - ?day r) ?xs = map (\<lambda>r. - ?day' r) ?ys"
    by (rule sorted_unique_mset[OF sorted_days sorted_days])
  then have "map uminus (map (\<lambda>r. - ?day r) ?xs) = map uminus (map (\<lambda>r. - ?day' r) ?ys)"
    by simp
  then have "map ?day ?xs = map ?day' ?ys"
    by (simp add: comp_def)
  then show ?thesis
    unfolding currentStreak_def2 using assms(2) by (rule streakLoop_days_only)
qed

lemma date_only_west_of_UTC:
  assumes "- msPerDay \<le> tz" and "tz < 0" and "t mod msPerDay = 0"
  shows "toDateString tz t = t div msPerDay - 1"
proof -
  define k where "k = t div msPerDay"
  define u where "u = msPerDay + tz"
  have t: "t = k * msPerDay"
    using div_mult_mod_eq[of t msPerDay] assms(3) by (simp add: k_def)
  have u: "0 \<le> u" "u < msPerDay"
    using assms(1,2) by (simp_all add: u_def)
  have "t + tz = (k - 1) * msPerDay + u"
    by (simp add: t u_def algebra_simps)
  then have "(t + tz) div msPerDay = (k - 1) + u div msPerDay"
    by (simp add: msPerDay_def)
  also have "u div msPerDay = 0"
    using u by (rule div_pos_pos_trivial)
  finally show ?thesis
    by (simp add: toDateString_def k_def)
qed

text \<open>
  West of UTC, date-only strings never count: when every completed record is dated by a
  date-only string (midnight UTC) of today or earlier, the streak is 0.
\<close>

lemma streak_zero_date_only_west_of_UTC:
  assumes "- msPerDay \<le> tz" and "tz < 0"
    and "\<forall>r \<in> set rs. completed r \<longrightarrow>
           parse (date r) mod msPerDay = 0 \<and> parse (date r) div msPerDay \<le> toDateString tz now"
  shows "currentStreak (calculateStats parse tz now rs) = 0"
proof (rule streak_no_today, intro ballI impI)
  fix r
  assume "r \<in> set rs" and "completed r"
  with assms(3) have m: "parse (date r) mod msPerDay = 0"
    and le: "parse (date r) div msPerDay \<le> toDateString tz now"
    by blast+
  from date_only_west_of_UTC[OF assms(1,2) m] le
  show "toDateString tz (parse (date r)) \<noteq> toDateString tz now"
    by simp
qed

text \<open>
  C1. The claim: with exactly \<open>n\<close> completed records dated the \<open>n\<close> consecutive calendar
  days ending today, \<^verbatim>\<open>calculateStats\<close> reports currentStreak = n, dates being compared by
  calendar day only. The code parses the date string with \<^verbatim>\<open>new Date(r.date)\<close>, which for
  a date-only string is midnight UTC, and compares in local time with
  \<^verbatim>\<open>toDateString()\<close>. Three hours west of UTC, with completed records dated 2024-01-01,
  2024-01-02 and 2024-01-03 and the clock at 07:00 local time on 2024-01-03, the record of
  today falls on the evening of 2024-01-02, the first comparison of the loop fails and the
  streak is 0, not 3. The same records at the same instant give 3 at UTC and east of it.
\<close>

theorem C1_streak_zero_west_of_UTC:
  "map date (filter completed exampleThreeDays) = [''2024-01-02'', ''2024-01-03'', ''2024-01-01'']
   \<and> map (\<lambda>r. exampleParse (date r) div msPerDay) (sortedRecords exampleParse exampleThreeDays)
       = [19725, 19724, 19723]
   \<and> toDateString (- 10800000) exampleNow = 19725
   \<and> map (\<lambda>r. toDateString (- 10800000) (exampleParse (date r)))
         (sortedRecords exampleParse exampleThreeDays)
       = [19724, 19723, 19722]
   \<and> currentStreak (calculateStats exampleParse (- 10800000) exampleNow exampleThreeDays) = 0
   \<and> currentStreak (calculateStats exampleParse 0 exampleNow exampleThreeDays) = 3
   \<and> currentStreak (calculateStats exampleParse 3600000 exampleNow exampleThreeDays) = 3"
  by (simp add: currentStreak_def2 sortedRecords_def setDateBack_def example_defs)

section \<open>Completion rate\<close>

lemma completedLast30Days_eq:
  "length (filter completed (last30DaysRecords parse now rs))
     = length (filter (\<lambda>r. completed r \<and> now - 30 * msPerDay \<le> parse (date r)) rs)"
  by (simp add: last30DaysRecords_def thirtyDaysAgo_def setDateBack_def conj_commute)

lemma completionRate_def2:
  "completionRate (calculateStats parse tz now rs)
     = real (length (filter completed (last30DaysRecords parse now rs))) / 30 * 100"
  by (simp add: calculateStats_def Let_def)

lemma p_completionRate_def2:
  "p_completionRate (calculateMonthlyProgress parse now rs)
     = real (length (filter completed (last30DaysRecords parse now rs))) / 30 * 100"
  by (simp add: calculateMonthlyProgress_def Let_def)

lemma filter_all: "\<forall>r \<in> set rs. P r \<Longrightarrow> filter P rs = rs"
  by (induction rs) simp_all

text \<open>
  C2. For every record collection, completionRate is the number of completed records whose
  instant is on or after now minus 30 days, divided by the constant 30, times 100, in
  \<^verbatim>\<open>calculateStats\<close> and in \<^verbatim>\<open>calculateMonthlyProgress\<close> alike. A collection of five
  records, all completed and all inside the window, gives (5/30)*100 and not 100.
\<close>

theorem C2_completionRate:
  "completionRate (calculateStats parse tz now rs)
     = real (length (filter (\<lambda>r. completed r \<and> now - 30 * msPerDay \<le> parse (date r)) rs)) / 30 * 100
   \<and> p_completionRate (calculateMonthlyProgress parse now rs)
     = real (length (filter (\<lambda>r. completed r \<and> now - 30 * msPerDay \<le> parse (date r)) rs)) / 30 * 100
   \<and> (length rs = 5 \<and> (\<forall>r \<in> set rs. completed r \<and> now - 30 * msPerDay \<le> parse (date r))
      \<longrightarrow> completionRate (calculateStats parse tz now rs) = 5 / 30 * 100
        \<and> completionRate (calculateStats parse tz now rs) \<noteq> 100)"
proof -
  have "length rs = 5 \<and> (\<forall>r \<in> set rs. completed r \<and> now - 30 * msPerDay \<le> parse (date r))
      \<longrightarrow> completionRate (calculateStats parse tz now rs) = 5 / 30 * 100
        \<and> completionRate (calculateStats parse tz now rs) \<noteq> 100"
  proof
    assume a: "length rs = 5 \<and> (\<forall>r \<in> set rs. completed r \<and> now - 30 * msPerDay \<le> parse (date r))"
    then have "filter (\<lambda>r. completed r \<and> now - 30 * msPerDay \<le> parse (date r)) rs = rs"
      by (intro filter_all) simp
    with a have "completionRate (calculateStats parse tz now rs) = 5 / 30 * 100"
      by (simp add: completionRate_def2 completedLast30Days_eq)
    then show "completionRate (calculateStats parse tz now rs) = 5 / 30 * 100
        \<and> completionRate (calculateStats parse tz now rs) \<noteq> 100"
      by simp
  qed
  then show ?thesis
    by (simp add: completionRate_def2 p_completionRate_def2 completedLast30Days_eq)
qed

theorem C2_completionRate_witness:
  "length exampleFiveDays = 5
   \<and> filter (\<lambda>r. completed r \<and> exampleNow - 30 * msPerDay \<le> exampleParse (date r)) exampleFiveDays
       = exampleFiveDays
   \<and> completionRate (calculateStats exampleParse 3600000 exampleNow exampleFiveDays) = 5 / 30 * 100
   \<and> completionRate (calculateStats exampleParse 3600000 exampleNow exampleFiveDays) \<noteq> 100"
proof -
  have h1: "length exampleFiveDays = 5"
    by (simp add: example_defs)
  have h2: "filter (\<lambda>r. completed r \<and> exampleNow - 30 * msPerDay \<le> exampleParse (date r)) exampleFiveDays
       = exampleFiveDays"
    by (simp add: example_defs)
  then have h2': "\<forall>r \<in> set exampleFiveDays. completed r \<and> exampleNow - 30 * msPerDay \<le> exampleParse (date r)"
    by (simp only: filter_id_conv)
  from h1 h2 h2' C2_completionRate[of exampleParse 3600000 exampleNow exampleFiveDays] show ?thesis
    by blast
qed

text \<open>
  C10. The window filter has a lower bound only: a record passes exactly when its instant is
  on or after now minus 30 days, so a completed record dated after now is counted; and
  nothing caps the result: more than 30 completed records passing the filter give a
  completionRate above 100.
\<close>

theorem C10_window_unbounded:
  "(r \<in> set (last30DaysRecords parse now rs)
      \<longleftrightarrow> r \<in> set rs \<and> now - 30 * msPerDay \<le> parse (date r))
   \<and> (r \<in> set rs \<and> completed r \<and> now < parse (date r)
      \<longrightarrow> r \<in> set (filter completed (last30DaysRecords parse now rs)))
   \<and> (30 < length (filter completed (last30DaysRecords parse now rs))
      \<longrightarrow> 100 < completionRate (calculateStats parse tz now rs))"
proof -
  have a: "r \<in> set (last30DaysRecords parse now rs)
      \<longleftrightarrow> r \<in> set rs \<and> now - 30 * msPerDay \<le> parse (date r)"
    by (simp add: last30DaysRecords_def thirtyDaysAgo_def setDateBack_def)
  have b: "r \<in> set rs \<and> completed r \<and> now < parse (date r)
      \<longrightarrow> r \<in> set (filter completed (last30DaysRecords parse now rs))"
    using a by (simp add: msPerDay_def)
  have c: "30 < length (filter completed (last30DaysRecords parse now rs))
      \<longrightarrow> 100 < completionRate (calculateStats parse tz now rs)"
    by (simp add: completionRate_def2)
  from a b c show ?thesis by blast
qed

theorem C10_window_unbounded_witness:
  "(exampleRecord ''2024-01-09'' 2 True \<in> set exampleFuture
      \<and> completed (exampleRecord ''2024-01-09'' 2 True)
      \<and> exampleNow < exampleParse (date (exampleRecord ''2024-01-09'' 2 True))
      \<and> exampleRecord ''2024-01-09'' 2 True
           \<in> set (filter completed (last30DaysRecords exampleParse exampleNow exampleFuture)))
   \<and> (30 < length (filter completed (last30DaysRecords exampleParse exampleNow exampleFuture))
      \<and> 100 < completionRate (calculateStats exampleParse 3600000 exampleNow exampleFuture))"
proof -
  have h1: "exampleRecord ''2024-01-09'' 2 True \<in> set exampleFuture
      \<and> completed (exampleRecord ''2024-01-09'' 2 True)
      \<and> exampleNow < exampleParse (date (exampleRecord ''2024-01-09'' 2 True))"
    by (simp add: example_defs)
  have h2: "30 < length (filter completed (last30DaysRecords exampleParse exampleNow exampleFuture))"
    by (simp add: example_defs last30DaysRecords_def thirtyDaysAgo_def setDateBack_def)
  from h1 h2 C10_window_unbounded[of "exampleRecord ''2024-01-09'' 2 True" exampleParse exampleNow exampleFuture 3600000]
  show ?thesis by blast
qed

section \<open>Create, update, delete: retry and sync status\<close>

lemma hook_createRecord_fails:
  assumes "createDailyRecord createResp = Inl e"
  shows "hook_createRecord (Some uid) recordData createResp verifyResp st
     = (Inl e, st\<lparr> syncStatus := SyncError,
                   requests := requests st @ [InsertDailyRecord uid recordData],
                   timers := timers st @ [(2000, RetryCreate uid recordData)] \<rparr>)"
  using assms by (simp add: hook_createRecord_def hook_createRecord_catch_def Let_def)

lemma runTask_retry_fails:
  assumes "createDailyRecord retryResp = Inl e"
  shows "runTask (RetryCreate uid recordData) retryResp st
     = st\<lparr> syncStatus := SyncError,
           requests := requests st @ [InsertDailyRecord uid recordData],
           alerts := alerts st @ [syncAlert] \<rparr>"
  using assms by (simp add: runTask_def Let_def)

lemma runTask_retry_succeeds:
  assumes "createDailyRecord retryResp = Inr i"
  shows "runTask (RetryCreate uid recordData) retryResp st
     = st\<lparr> syncStatus := Synced,
           requests := requests st @ [InsertDailyRecord uid recordData] \<rparr>"
  using assms by (simp add: runTask_def Let_def)

lemma update_delete_no_retry:
  "timers (snd (hook_updateRecord recordId updates err st)) = timers st"
  "timers (snd (hook_deleteRecord recordId err st)) = timers st"
  "timers (snd (ctx_updateRecord recordId updates err st)) = timers st"
  "timers (snd (ctx_deleteRecord recordId err st)) = timers st"
  by (simp_all add: hook_updateRecord_def hook_deleteRecord_def ctx_updateRecord_def
      ctx_deleteRecord_def Let_def split: sum.splits)

lemma update_delete_fail_at_once:
  "fst (hook_updateRecord recordId updates (Some c) st) = Inl (PostgrestError c)"
  "waited (snd (hook_updateRecord recordId updates (Some c) st)) = waited st"
  "requests (snd (hook_updateRecord recordId updates (Some c) st))
     = requests st @ [UpdateDailyRecord recordId updates]"
  "fst (hook_deleteRecord recordId (Some c) st) = Inl (PostgrestError c)"
  "waited (snd (hook_deleteRecord recordId (Some c) st)) = waited st"
  "requests (snd (hook_deleteRecord recordId (Some c) st))
     = requests st @ [DeleteDailyRecord recordId]"
  by (simp_all add: hook_updateRecord_def hook_deleteRecord_def updateDailyRecord_def
      deleteDailyRecord_def Let_def)

text \<open>
  C3. In \<^verbatim>\<open>createRecord\<close> of useFirebaseDailyRecords, when the creation request fails the
  caller gets the original error at once (no awaited delay, no alert), and exactly one
  callback is scheduled, 2000 ms later, that repeats the same insert. When that retry fails
  too, one alert is shown and nothing further is scheduled: run from a store with no
  pending callback, the two failures leave no callback pending and two insert requests
  issued. \<^verbatim>\<open>updateRecord\<close> and \<^verbatim>\<open>deleteRecord\<close>, of the hook and of the provider, never
  schedule anything, and those of the hook return the error of a failure at once, after
  their single request.
\<close>

theorem C3_create_retries_once:
  "(createDailyRecord createResp = Inl e \<longrightarrow>
      fst (hook_createRecord (Some uid) recordData createResp verifyResp st) = Inl e
      \<and> waited (snd (hook_createRecord (Some uid) recordData createResp verifyResp st)) = waited st
      \<and> alerts (snd (hook_createRecord (Some uid) recordData createResp verifyResp st)) = alerts st
      \<and> requests (snd (hook_createRecord (Some uid) recordData createResp verifyResp st))
          = requests st @ [InsertDailyRecord uid recordData]
      \<and> timers (snd (hook_createRecord (Some uid) recordData createResp verifyResp st))
          = timers st @ [(2000, RetryCreate uid recordData)])
   \<and> (createDailyRecord retryResp = Inl e' \<longrightarrow>
      alerts (runTask (RetryCreate uid recordData) retryResp st) = alerts st @ [syncAlert]
      \<and> timers (runTask (RetryCreate uid recordData) retryResp st) = timers st
      \<and> requests (runTask (RetryCreate uid recordData) retryResp st)
          = requests st @ [InsertDailyRecord uid recordData])
   \<and> (createDailyRecord createResp = Inl e \<and> createDailyRecord retryResp = Inl e' \<and> timers st = [] \<longrightarrow>
      timers (fireTimer retryResp (snd (hook_createRecord (Some uid) recordData createResp verifyResp st))) = []
      \<and> alerts (fireTimer retryResp (snd (hook_createRecord (Some uid) recordData createResp verifyResp st)))
          = alerts st @ [syncAlert]
      \<and> requests (fireTimer retryResp (snd (hook_createRecord (Some uid) recordData createResp verifyResp st)))
          = requests st @ [InsertDailyRecord uid recordData, InsertDailyRecord uid recordData])
   \<and> timers (snd (hook_updateRecord recordId updates err st)) = timers st
   \<and> timers (snd (hook_deleteRecord recordId err st)) = timers st
   \<and> timers (snd (ctx_updateRecord recordId updates err st)) = timers st
   \<and> timers (snd (ctx_deleteRecord recordId err st)) = timers st
   \<and> (err = Some c \<longrightarrow>
      fst (hook_updateRecord recordId updates err st) = Inl (PostgrestError c)
      \<and> waited (snd (hook_updateRecord recordId updates err st)) = waited st
      \<and> requests (snd (hook_updateRecord recordId updates err st))
          = requests st @ [UpdateDailyRecord recordId updates]
      \<and> fst (hook_deleteRecord recordId err st) = Inl (PostgrestError c)
      \<and> waited (snd (hook_deleteRecord recordId err st)) = waited st
      \<and> requests (snd (hook_deleteRecord recordId err st))
          = requests st @ [DeleteDailyRecord recordId])"
proof -
  have a: "createDailyRecord createResp = Inl e \<longrightarrow>
      fst (hook_createRecord (Some uid) recordData createResp verifyResp st) = Inl e
      \<and> waited (snd (hook_createRecord (Some uid) recordData createResp verifyResp st)) = waited st
      \<and> alerts (snd (hook_createRecord (Some uid) recordData createResp verifyResp st)) = alerts st
      \<and> requests (snd (hook_createRecord (Some uid) recordData createResp verifyResp st))
          = requests st @ [InsertDailyRecord uid recordData]
      \<and> timers (snd (hook_createRecord (Some uid) recordData createResp verifyResp st))
          = timers st @ [(2000, RetryCreate uid recordData)]"
    by (simp add: hook_createRecord_fails)
  have b: "createDailyRecord retryResp = Inl e' \<longrightarrow>
      alerts (runTask (RetryCreate uid recordData) retryResp st) = alerts st @ [syncAlert]
      \<and> timers (runTask (RetryCreate uid recordData) retryResp st) = timers st
      \<and> requests (runTask (RetryCreate uid recordData) retryResp st)
          = requests st @ [InsertDailyRecord uid recordData]"
    by (simp add: runTask_retry_fails)
  have c: "createDailyRecord createResp = Inl e \<and> createDailyRecord retryResp = Inl e' \<and> timers st = [] \<longrightarrow>
      timers (fireTimer retryResp (snd (hook_createRecord (Some uid) recordData createResp verifyResp st))) = []
      \<and> alerts (fireTimer retryResp (snd (hook_createRecord (Some uid) recordData createResp verifyResp st)))
          = alerts st @ [syncAlert]
      \<and> requests (fireTimer retryResp (snd (hook_createRecord (Some uid) recordData createResp verifyResp st)))
          = requests st @ [InsertDailyRecord uid recordData, InsertDailyRecord uid recordData]"
    by (simp add: hook_createRecord_fails fireTimer_def runTask_retry_fails)
  have d: "err = Some c \<longrightarrow>
      fst (hook_updateRecord recordId updates err st) = Inl (PostgrestError c)
      \<and> waited (snd (hook_updateRecord recordId updates err st)) = waited st
      \<and> requests (snd (hook_updateRecord recordId updates err st))
          = requests st @ [UpdateDailyRecord recordId updates]
      \<and> fst (hook_deleteRecord recordId err st) = Inl (PostgrestError c)
      \<and> waited (snd (hook_deleteRecord recordId err st)) = waited st
      \<and> requests (snd (hook_deleteRecord recordId err st))
          = requests st @ [DeleteDailyRecord recordId]"
    by (simp add: update_delete_fail_at_once)
  from a b c d update_delete_no_retry show ?thesis by blast
qed

theorem C3_create_retries_once_witness:
  "createDailyRecord exampleFailure = Inl (PostgrestError ''08006'')
   \<and> timers initialStore = []
   \<and> fst (hook_createRecord (Some ''u1'') exampleData exampleFailure exampleCreated initialStore)
       = Inl (PostgrestError ''08006'')
   \<and> timers (snd (hook_createRecord (Some ''u1'') exampleData exampleFailure exampleCreated initialStore))
       = [(2000, RetryCreate ''u1'' exampleData)]
   \<and> alerts (runTask (RetryCreate ''u1'' exampleData) exampleFailure initialStore) = [syncAlert]
   \<and> timers (fireTimer exampleFailure
        (snd (hook_createRecord (Some ''u1'') exampleData exampleFailure exampleCreated initialStore))) = []
   \<and> requests (fireTimer exampleFailure
        (snd (hook_createRecord (Some ''u1'') exampleData exampleFailure exampleCreated initialStore)))
       = [InsertDailyRecord ''u1'' exampleData, InsertDailyRecord ''u1'' exampleData]
   \<and> fst (hook_updateRecord ''r1'' [(''capsules'', ''3'')] (Some ''08006'') initialStore)
       = Inl (PostgrestError ''08006'')
   \<and> fst (hook_deleteRecord ''r1'' (Some ''08006'') initialStore) = Inl (PostgrestError ''08006'')"
proof -
  have h1: "createDailyRecord exampleFailure = Inl (PostgrestError ''08006'')"
    by (simp add: createDailyRecord_def exampleFailure_def)
  have h2: "timers initialStore = []"
    by (simp add: initialStore_def)
  have h3: "Some ''08006'' = Some ''08006''" by simp
  from h1 h2 h3
    C3_create_retries_once[of exampleFailure "PostgrestError ''08006''" "''u1''" exampleData
      exampleCreated initialStore exampleFailure "PostgrestError ''08006''" "''r1''"
      "[(''capsules'', ''3'')]" "Some ''08006''" "''08006''"]
  show ?thesis by (simp add: initialStore_def)
qed

lemma syncStatus_conforming_paths:
  "syncStatus (snd (hook_updateRecord recordId updates None st)) = Synced"
  "syncStatus (snd (hook_updateRecord recordId updates (Some c) st)) = SyncError"
  "syncStatus (snd (hook_deleteRecord recordId None st)) = Synced"
  "syncStatus (snd (hook_deleteRecord recordId (Some c) st)) = SyncError"
  "syncStatus (snd (ctx_updateRecord recordId updates None st)) = Synced"
  "syncStatus (snd (ctx_updateRecord recordId updates (Some c) st)) = SyncError"
  "syncStatus (snd (ctx_deleteRecord recordId None st)) = Synced"
  "syncStatus (snd (ctx_deleteRecord recordId (Some c) st)) = SyncError"
  "syncStatus (onSnapshot newRecords st) = Synced"
  by (simp_all add: hook_updateRecord_def hook_deleteRecord_def ctx_updateRecord_def
      ctx_deleteRecord_def updateDailyRecord_def deleteDailyRecord_def onSnapshot_def Let_def)

lemma syncStatus_create_paths:
  "createDailyRecord createResp = Inr i \<Longrightarrow> getDailyRecordByDate verifyResp = Inr v \<Longrightarrow>
     syncStatus (snd (hook_createRecord (Some uid) recordData createResp verifyResp st)) = Synced"
  "createDailyRecord createResp = Inl e \<Longrightarrow>
     syncStatus (snd (hook_createRecord (Some uid) recordData createResp verifyResp st)) = SyncError"
  "createDailyRecord createResp = Inl e \<Longrightarrow>
     syncStatus (snd (ctx_createRecord (Some uid) recordData createResp st)) = SyncError"
  by (simp_all add: hook_createRecord_def hook_createRecord_catch_def ctx_createRecord_def Let_def)

lemma ctx_createRecord_success:
  "createDailyRecord createResp = Inr i \<Longrightarrow>
     ctx_createRecord (Some uid) recordData createResp st
       = (Inr (), st\<lparr> syncStatus := Syncing,
                       requests := requests st @ [InsertDailyRecord uid recordData] \<rparr>)"
  by (simp add: ctx_createRecord_def Let_def)

text \<open>
  C5. The claim: every mutation of both stores sets the status to syncing on entry, to
  synced on success and to error on failure. \<^verbatim>\<open>createRecord\<close> of FirebaseRecordsProvider
  does not: with an authenticated user and an insert that succeeds it returns normally and
  leaves the status at syncing, where \<^verbatim>\<open>createRecord\<close> of useFirebaseDailyRecords, on the
  same input, ends at synced. The other paths conform (lemmas
  \<open>syncStatus_conforming_paths\<close>, \<open>syncStatus_create_paths\<close>).
\<close>

theorem C5_ctx_createRecord_stays_syncing:
  "createDailyRecord exampleCreated = Inr (Some ''r1'')
   \<and> fst (ctx_createRecord (Some ''u1'') exampleData exampleCreated initialStore) = Inr ()
   \<and> syncStatus (snd (ctx_createRecord (Some ''u1'') exampleData exampleCreated initialStore)) = Syncing
   \<and> syncStatus (snd (hook_createRecord (Some ''u1'') exampleData exampleCreated exampleCreated initialStore)) = Synced"
  by (simp add: ctx_createRecord_def hook_createRecord_def createDailyRecord_def
      getDailyRecordByDate_def exampleCreated_def exampleRecord_def initialStore_def Let_def)

section \<open>Lookup by date\<close>

lemma find_date_Some:
  "find (\<lambda>r. date r = d) rs = Some r \<Longrightarrow> r \<in> set rs \<and> date r = d"
  by (induction rs) (auto split: if_splits)

lemma find_date_None:
  "find (\<lambda>r. date r = d) rs = None \<longleftrightarrow> (\<forall>r \<in> set rs. date r \<noteq> d)"
  by (induction rs) auto

lemma hook_getRecordByDate_total:
  "\<exists>v. fst (hook_getRecordByDate user d resp st) = Inr v"
  by (auto simp: hook_getRecordByDate_def hook_getRecordByDate_try_def
      split: option.splits sum.splits prod.splits)

lemma hook_getRecordByDate_cached:
  assumes "find (\<lambda>r. date r = d) (records st) = Some r"
  shows "hook_getRecordByDate (Some uid) d resp st = (Inr (Some r), st)"
  using assms by (simp add: hook_getRecordByDate_def hook_getRecordByDate_try_def)

lemma hook_getRecordByDate_miss:
  assumes "find (\<lambda>r. date r = d) (records st) = None"
  shows "hook_getRecordByDate (Some uid) d resp st
     = (case getDailyRecordByDate resp of Inl e \<Rightarrow> Inr None | Inr v \<Rightarrow> Inr v,
        st\<lparr> requests := requests st @ [SelectDailyRecordByDate uid d] \<rparr>)"
  using assms by (simp add: hook_getRecordByDate_def hook_getRecordByDate_try_def split: sum.splits)

lemma ctx_getRecordByDate_try_eq:
  "ctx_getRecordByDate_try uid d resp st = hook_getRecordByDate_try uid d resp st"
  by (simp add: ctx_getRecordByDate_try_def hook_getRecordByDate_try_def)

lemma ctx_getRecordByDate_eq:
  "ctx_getRecordByDate user d resp st = hook_getRecordByDate user d resp st"
  by (cases user)
     (simp_all add: ctx_getRecordByDate_def hook_getRecordByDate_def ctx_getRecordByDate_try_eq)

text \<open>
  C6. \<^verbatim>\<open>getRecordByDate(d)\<close> never throws. When the cached collection holds a record with
  date \<open>d\<close> it returns such a record and sends nothing to the backend. Otherwise it sends
  one lookup and returns what the backend has: the record, or null when there is none.
  When the lookup fails the result is null, and so it is when no user is authenticated.
  The provider's function is the same function.
\<close>

theorem C6_getRecordByDate:
  "(\<exists>v. fst (hook_getRecordByDate user d resp st) = Inr v)
   \<and> ((\<exists>r \<in> set (records st). date r = d) \<longrightarrow>
        (\<exists>r \<in> set (records st). date r = d
           \<and> hook_getRecordByDate (Some uid) d resp st = (Inr (Some r), st)))
   \<and> ((\<forall>r \<in> set (records st). date r \<noteq> d) \<longrightarrow>
        requests (snd (hook_getRecordByDate (Some uid) d resp st))
          = requests st @ [SelectDailyRecordByDate uid d]
        \<and> fst (hook_getRecordByDate (Some uid) d resp st)
          = (case getDailyRecordByDate resp of Inl e \<Rightarrow> Inr None | Inr v \<Rightarrow> Inr v))
   \<and> ((\<forall>r \<in> set (records st). date r \<noteq> d) \<and> (error resp = None \<or> error resp = Some ''PGRST116'') \<longrightarrow>
        fst (hook_getRecordByDate (Some uid) d resp st) = Inr (data resp))
   \<and> ((\<forall>r \<in> set (records st). date r \<noteq> d) \<and> error resp = Some c \<and> c \<noteq> ''PGRST116'' \<longrightarrow>
        fst (hook_getRecordByDate (Some uid) d resp st) = Inr None)
   \<and> hook_getRecordByDate None d resp st = (Inr None, st)
   \<and> ctx_getRecordByDate user d resp st = hook_getRecordByDate user d resp st"
proof -
  have cached: "(\<exists>r \<in> set (records st). date r = d) \<longrightarrow>
        (\<exists>r \<in> set (records st). date r = d
           \<and> hook_getRecordByDate (Some uid) d resp st = (Inr (Some r), st))"
  proof
    assume "\<exists>r \<in> set (records st). date r = d"
    then have "find (\<lambda>r. date r = d) (records st) \<noteq> None"
      by (simp add: find_date_None)
    then obtain r where r: "find (\<lambda>r. date r = d) (records st) = Some r" by blast
    with find_date_Some[OF r] hook_getRecordByDate_cached[OF r]
    show "\<exists>r \<in> set (records st). date r = d
           \<and> hook_getRecordByDate (Some uid) d resp st = (Inr (Some r), st)"
      by blast
  qed
  have miss: "(\<forall>r \<in> set (records st). date r \<noteq> d) \<longrightarrow>
        hook_getRecordByDate (Some uid) d resp st
     = (case getDailyRecordByDate resp of Inl e \<Rightarrow> Inr None | Inr v \<Rightarrow> Inr v,
        st\<lparr> requests := requests st @ [SelectDailyRecordByDate uid d] \<rparr>)"
    using hook_getRecordByDate_miss by (simp add: find_date_None)
  have ok: "error resp = None \<or> error resp = Some ''PGRST116'' \<Longrightarrow>
        getDailyRecordByDate resp = Inr (data resp)"
    by (auto simp: getDailyRecordByDate_def)
  have bad: "error resp = Some c \<and> c \<noteq> ''PGRST116'' \<Longrightarrow>
        getDailyRecordByDate resp = Inl (PostgrestError c)"
    by (auto simp: getDailyRecordByDate_def)
  have nouser: "hook_getRecordByDate None d resp st = (Inr None, st)"
    by (simp add: hook_getRecordByDate_def)
  show ?thesis
    using hook_getRecordByDate_total[of user d resp st] cached miss ok bad nouser
      ctx_getRecordByDate_eq[of user d resp st]
    by (auto split: sum.splits)
qed

theorem C6_getRecordByDate_witness:
  "date (exampleRecord ''2024-01-03'' 3 True) = ''2024-01-03''
   \<and> hook_getRecordByDate (Some ''u1'') ''2024-01-03'' exampleFailure exampleStore
       = (Inr (Some (exampleRecord ''2024-01-03'' 3 True)), exampleStore)
   \<and> find (\<lambda>r. date r = ''2024-02-01'') (records exampleStore) = None
   \<and> fst (hook_getRecordByDate (Some ''u1'') ''2024-02-01'' exampleNoRows exampleStore) = Inr None
   \<and> fst (hook_getRecordByDate (Some ''u1'') ''2024-02-01'' exampleFound exampleStore)
       = Inr (Some (exampleRecord ''2024-02-01'' 2 True))
   \<and> fst (hook_getRecordByDate (Some ''u1'') ''2024-02-01'' exampleFailure exampleStore) = Inr None
   \<and> requests (snd (hook_getRecordByDate (Some ''u1'') ''2024-02-01'' exampleFailure exampleStore))
       = [SelectDailyRecordByDate ''u1'' ''2024-02-01'']"
proof -
  have recs: "records exampleStore = exampleRecords"
    by (simp add: exampleStore_def onSnapshot_def)
  have reqs: "requests exampleStore = []"
    by (simp add: exampleStore_def onSnapshot_def initialStore_def)
  have dates: "map date exampleRecords
      = [''2024-01-02T15:30:00Z'', ''2024-01-09'', ''2024-01-03'', ''2024-01-01'']"
    by (simp add: exampleRecords_def exampleRecord_def)
  have h1: "\<exists>r \<in> set (records exampleStore). date r = ''2024-01-03''"
    unfolding recs by (simp add: exampleRecords_def exampleRecord_def)
  have h2: "\<forall>r \<in> set (records exampleStore). date r \<noteq> ''2024-02-01''"
    unfolding recs by (simp add: exampleRecords_def exampleRecord_def)
  have uniq: "\<And>r. r \<in> set (records exampleStore) \<Longrightarrow> date r = ''2024-01-03''
      \<Longrightarrow> r = exampleRecord ''2024-01-03'' 3 True"
    unfolding recs by (auto simp: exampleRecords_def exampleRecord_def)
  have e1: "error exampleNoRows = Some ''PGRST116''" "data exampleNoRows = None"
    by (simp_all add: exampleNoRows_def)
  have e2: "error exampleFound = None"
    "data exampleFound = Some (exampleRecord ''2024-02-01'' 2 True)"
    by (simp_all add: exampleFound_def)
  have e3: "error exampleFailure = Some ''08006''" "''08006'' \<noteq> ''PGRST116''"
    by (simp_all add: exampleFailure_def)
  note t1 = C6_getRecordByDate[of "Some ''u1''" "''2024-01-03''" exampleFailure exampleStore "''u1''" "''08006''"]
  note t2 = C6_getRecordByDate[of "Some ''u1''" "''2024-02-01''" exampleNoRows exampleStore "''u1''" "''08006''"]
  note t3 = C6_getRecordByDate[of "Some ''u1''" "''2024-02-01''" exampleFound exampleStore "''u1''" "''08006''"]
  note t4 = C6_getRecordByDate[of "Some ''u1''" "''2024-02-01''" exampleFailure exampleStore "''u1''" "''08006''"]
  have c1: "hook_getRecordByDate (Some ''u1'') ''2024-01-03'' exampleFailure exampleStore
       = (Inr (Some (exampleRecord ''2024-01-03'' 3 True)), exampleStore)"
    using t1 h1 uniq by blast
  have c2: "fst (hook_getRecordByDate (Some ''u1'') ''2024-02-01'' exampleNoRows exampleStore) = Inr None"
    using t2 h2 e1 by metis
  have c3: "fst (hook_getRecordByDate (Some ''u1'') ''2024-02-01'' exampleFound exampleStore)
       = Inr (Some (exampleRecord ''2024-02-01'' 2 True))"
    using t3 h2 e2 by metis
  have c4: "fst (hook_getRecordByDate (Some ''u1'') ''2024-02-01'' exampleFailure exampleStore) = Inr None"
    using t4 h2 e3 by blast
  have c5: "requests (snd (hook_getRecordByDate (Some ''u1'') ''2024-02-01'' exampleFailure exampleStore))
       = [SelectDailyRecordByDate ''u1'' ''2024-02-01'']"
    using t4 h2 reqs by (metis append_Nil)
  have c0: "date (exampleRecord ''2024-01-03'' 3 True) = ''2024-01-03''"
    by (simp add: exampleRecord_def)
  have c6: "find (\<lambda>r. date r = ''2024-02-01'') (records exampleStore) = None"
    using h2 by (simp add: find_date_None)
  from c0 c1 c2 c3 c4 c5 c6 show ?thesis by blast
qed

section \<open>Tutorial gate\<close>

lemma hasUserSeenTutorial_query_throws:
  "error resp = Some c \<Longrightarrow> c \<noteq> ''PGRST116'' \<Longrightarrow>
     hasUserSeenTutorial_try resp = Inl (PostgrestError c) \<and> hasUserSeenTutorial resp = True"
  by (simp add: hasUserSeenTutorial_def hasUserSeenTutorial_try_def)

lemma hasUserSeenTutorial_query_succeeds:
  "error resp = None \<or> error resp = Some ''PGRST116'' \<Longrightarrow>
     hasUserSeenTutorial resp
       = (case data resp of None \<Rightarrow> False
          | Some row \<Rightarrow> (case has_seen_tutorial row of None \<Rightarrow> False | Some b \<Rightarrow> b))"
  by (auto simp: hasUserSeenTutorial_def hasUserSeenTutorial_try_def)

lemma showTutorial_checkTutorialStatus:
  "showTutorial (checkTutorialStatus user isAuthenticated seen g)
     \<longleftrightarrow> user \<noteq> None \<and> isAuthenticated \<and> seen = Inr False"
  by (auto simp: checkTutorialStatus_def split: sum.splits)

text \<open>
  C7. When the query for the tutorial flag throws (an error other than "no rows"),
  \<^verbatim>\<open>hasUserSeenTutorial\<close> answers true from its error handler and the gate does not show
  the tutorial; the error handler of \<^verbatim>\<open>checkTutorialStatus\<close> hides it as well. The
  tutorial is shown exactly when the user is authenticated, the query did not throw and
  the row is absent, its field is absent, or the field is false.
\<close>

theorem C7_tutorial_read_failure:
  "(error resp = Some c \<and> c \<noteq> ''PGRST116'' \<longrightarrow>
      hasUserSeenTutorial_try resp = Inl (PostgrestError c)
      \<and> hasUserSeenTutorial resp = True
      \<and> showTutorial (checkTutorialStatus user isAuthenticated (Inr (hasUserSeenTutorial resp)) g) = False)
   \<and> showTutorial (checkTutorialStatus user isAuthenticated (Inl e) g) = False
   \<and> (showTutorial (checkTutorialStatus user isAuthenticated (Inr (hasUserSeenTutorial resp)) g)
      \<longleftrightarrow> user \<noteq> None \<and> isAuthenticated
          \<and> (error resp = None \<or> error resp = Some ''PGRST116'')
          \<and> (data resp = None
              \<or> (\<exists>row. data resp = Some row
                    \<and> (has_seen_tutorial row = None \<or> has_seen_tutorial row = Some False))))"
proof -
  have a: "error resp = Some c \<and> c \<noteq> ''PGRST116'' \<longrightarrow>
      hasUserSeenTutorial_try resp = Inl (PostgrestError c)
      \<and> hasUserSeenTutorial resp = True
      \<and> showTutorial (checkTutorialStatus user isAuthenticated (Inr (hasUserSeenTutorial resp)) g) = False"
    using hasUserSeenTutorial_query_throws[of resp c]
    by (simp add: showTutorial_checkTutorialStatus)
  have b: "showTutorial (checkTutorialStatus user isAuthenticated (Inl e) g) = False"
    by (simp add: showTutorial_checkTutorialStatus)
  have seen: "\<not> hasUserSeenTutorial resp
      \<longleftrightarrow> (error resp = None \<or> error resp = Some ''PGRST116'')
          \<and> (data resp = None
              \<or> (\<exists>row. data resp = Some row
                    \<and> (has_seen_tutorial row = None \<or> has_seen_tutorial row = Some False)))"
    by (auto simp: hasUserSeenTutorial_def hasUserSeenTutorial_try_def split: option.splits)
  have c: "showTutorial (checkTutorialStatus user isAuthenticated (Inr (hasUserSeenTutorial resp)) g)
      \<longleftrightarrow> user \<noteq> None \<and> isAuthenticated \<and> \<not> hasUserSeenTutorial resp"
    by (simp add: showTutorial_checkTutorialStatus)
  from a b c seen show ?thesis by blast
qed

theorem C7_tutorial_read_failure_witness:
  "hasUserSeenTutorial_try \<lparr> data = None, error = Some ''08006'' \<rparr> = Inl (PostgrestError ''08006'')
   \<and> hasUserSeenTutorial \<lparr> data = None, error = Some ''08006'' \<rparr> = True
   \<and> showTutorial (checkTutorialStatus (Some ''u1'') True
        (Inr (hasUserSeenTutorial \<lparr> data = None, error = Some ''08006'' \<rparr>)) exampleGate) = False
   \<and> showTutorial (checkTutorialStatus (Some ''u1'') True
        (Inr (hasUserSeenTutorial \<lparr> data = None, error = Some ''PGRST116'' \<rparr>)) exampleGate) = True
   \<and> showTutorial (checkTutorialStatus (Some ''u1'') True
        (Inr (hasUserSeenTutorial \<lparr> data = Some \<lparr> has_seen_tutorial = None \<rparr>, error = None \<rparr>))
        exampleGate) = True"
proof -
  let ?failed = "\<lparr> data = None, error = Some ''08006'' \<rparr> :: TutorialRow Response"
  let ?norow = "\<lparr> data = None, error = Some ''PGRST116'' \<rparr> :: TutorialRow Response"
  let ?nofield = "\<lparr> data = Some \<lparr> has_seen_tutorial = None \<rparr>, error = None \<rparr> :: TutorialRow Response"
  have e1: "error ?failed = Some ''08006'' \<and> ''08006'' \<noteq> ''PGRST116''"
    by simp
  have e2: "Some ''u1'' \<noteq> None \<and> True
          \<and> (error ?norow = None \<or> error ?norow = Some ''PGRST116'')
          \<and> (data ?norow = None
              \<or> (\<exists>row. data ?norow = Some row
                    \<and> (has_seen_tutorial row = None \<or> has_seen_tutorial row = Some False)))"
    by simp
  have e3: "Some ''u1'' \<noteq> None \<and> True
          \<and> (error ?nofield = None \<or> error ?nofield = Some ''PGRST116'')
          \<and> (data ?nofield = None
              \<or> (\<exists>row. data ?nofield = Some row
                    \<and> (has_seen_tutorial row = None \<or> has_seen_tutorial row = Some False)))"
    by simp
  note t1 = C7_tutorial_read_failure[of ?failed "''08006''" "Some ''u1''" True exampleGate "JsError ''x''"]
  note t2 = C7_tutorial_read_failure[of ?norow "''08006''" "Some ''u1''" True exampleGate "JsError ''x''"]
  note t3 = C7_tutorial_read_failure[of ?nofield "''08006''" "Some ''u1''" True exampleGate "JsError ''x''"]
  from t1 e1 have c1: "hasUserSeenTutorial_try ?failed = Inl (PostgrestError ''08006'')
      \<and> hasUserSeenTutorial ?failed = True
      \<and> showTutorial (checkTutorialStatus (Some ''u1'') True (Inr (hasUserSeenTutorial ?failed)) exampleGate) = False"
    by blast
  from t2 e2 have c2: "showTutorial (checkTutorialStatus (Some ''u1'') True
        (Inr (hasUserSeenTutorial ?norow)) exampleGate) = True"
    by blast
  from t3 e3 have c3: "showTutorial (checkTutorialStatus (Some ''u1'') True
        (Inr (hasUserSeenTutorial ?nofield)) exampleGate) = True"
    by blast
  from c1 c2 c3 show ?thesis by blast
qed

text \<open>
  C8. \<^verbatim>\<open>skipTutorial\<close> does what \<^verbatim>\<open>completeTutorial\<close> does, so the gate is in the same
  state after either. Skipping twice with the same answer of the backend ends in the state
  of skipping once; with a user the tutorial is hidden afterwards; and when the update
  succeeds the state is: flag persisted as true, tutorial hidden, and a second skip,
  whatever the backend answers, changes nothing.
\<close>

theorem C8_skipTutorial:
  "skipTutorial user err g = completeTutorial user err g
   \<and> skipTutorial user err (skipTutorial user err g) = skipTutorial user err g
   \<and> (user = Some uid \<longrightarrow> showTutorial (skipTutorial user err g) = False)
   \<and> (user = Some uid \<and> err = None \<longrightarrow>
        skipTutorial user err g = g\<lparr> persisted_has_seen_tutorial := True, showTutorial := False \<rparr>
        \<and> skipTutorial user err' (skipTutorial user err g) = skipTutorial user err g)"
  by (auto simp: skipTutorial_def completeTutorial_def markTutorialAsSeen_def split: option.splits)

theorem C8_skipTutorial_witness:
  "skipTutorial (Some ''u1'') None exampleGate
     = \<lparr> showTutorial = False, gate_loading = False, persisted_has_seen_tutorial = True \<rparr>
   \<and> skipTutorial (Some ''u1'') None (skipTutorial (Some ''u1'') None exampleGate)
     = skipTutorial (Some ''u1'') None exampleGate
   \<and> skipTutorial (Some ''u1'') (Some ''08006'') (skipTutorial (Some ''u1'') None exampleGate)
     = skipTutorial (Some ''u1'') None exampleGate
   \<and> showTutorial (skipTutorial (Some ''u1'') (Some ''08006'') exampleGate) = False"
proof -
  have h: "Some ''u1'' = Some ''u1'' \<and> (None :: string option) = None"
    by simp
  have g: "exampleGate\<lparr> persisted_has_seen_tutorial := True, showTutorial := False \<rparr>
      = \<lparr> showTutorial = False, gate_loading = False, persisted_has_seen_tutorial = True \<rparr>"
    by (simp add: exampleGate_def)
  note t1 = C8_skipTutorial[of "Some ''u1''" None exampleGate "''u1''" "Some ''08006''"]
  note t2 = C8_skipTutorial[of "Some ''u1''" "Some ''08006''" exampleGate "''u1''" None]
  from t1 h have c1: "skipTutorial (Some ''u1'') None exampleGate
        = exampleGate\<lparr> persisted_has_seen_tutorial := True, showTutorial := False \<rparr>
      \<and> skipTutorial (Some ''u1'') None (skipTutorial (Some ''u1'') None exampleGate)
        = skipTutorial (Some ''u1'') None exampleGate
      \<and> skipTutorial (Some ''u1'') (Some ''08006'') (skipTutorial (Some ''u1'') None exampleGate)
        = skipTutorial (Some ''u1'') None exampleGate"
    by blast
  from t2 h have c2: "showTutorial (skipTutorial (Some ''u1'') (Some ''08006'') exampleGate) = False"
    by blast
  from c1 c2 show ?thesis
    unfolding g by blast
qed

section \<open>User settings\<close>

lemma getUserSettings_no_row:
  assumes "error resp = None \<or> error resp = Some ''PGRST116''" and "data resp = None"
  shows "getUserSettings userId resp None now1 now2
     = (Inr (Some (UserSettingsInsert.extend (defaultSettings userId) (UserSettings.fields now1 now2))),
        [defaultSettings userId])"
  using assms by (auto simp: getUserSettings_def createUserSettings_def)

lemma getUserSettings_row:
  assumes "error resp = None \<or> error resp = Some ''PGRST116''" and "data resp = Some d"
  shows "getUserSettings userId resp insertErr now1 now2 = (Inr (Some d), [])"
  using assms by (auto simp: getUserSettings_def)

lemma getUserSettings_never_absent:
  "fst (getUserSettings userId resp insertErr now1 now2) \<noteq> Inr None"
  by (auto simp: getUserSettings_def createUserSettings_def split: option.splits)

lemma default_row:
  "UserSettingsInsert.extend (defaultSettings userId) (UserSettings.fields now1 now2)
     = \<lparr> settings_user_id = userId, notifications = True, reminder_time = ''09:00'',
         daily_goal = 2, weekly_goal = 14, theme = Light, language = En,
         settings_created_at = now1, settings_updated_at = now2 \<rparr>"
  by (simp add: defaultSettings_def UserSettingsInsert.defs UserSettings.defs)

text \<open>
  C9. \<^verbatim>\<open>getUserSettings\<close> never returns null. When the read finds no row (and the insert
  goes through) it inserts one row with the fixed defaults (notifications true,
  reminder_time 09:00, daily_goal 2, weekly_goal 14, theme light, language en) and returns
  those defaults; when a row exists it returns that row unchanged and inserts nothing.
\<close>

theorem C9_getUserSettings:
  "fst (getUserSettings userId resp insertErr now1 now2) \<noteq> Inr None
   \<and> ((error resp = None \<or> error resp = Some ''PGRST116'') \<and> data resp = None \<and> insertErr = None \<longrightarrow>
        getUserSettings userId resp insertErr now1 now2
          = (Inr (Some \<lparr> settings_user_id = userId, notifications = True, reminder_time = ''09:00'',
                         daily_goal = 2, weekly_goal = 14, theme = Light, language = En,
                         settings_created_at = now1, settings_updated_at = now2 \<rparr>),
             [\<lparr> settings_user_id = userId, notifications = True, reminder_time = ''09:00'',
                daily_goal = 2, weekly_goal = 14, theme = Light, language = En \<rparr>]))
   \<and> ((error resp = None \<or> error resp = Some ''PGRST116'') \<and> data resp = Some d \<longrightarrow>
        getUserSettings userId resp insertErr now1 now2 = (Inr (Some d), []))"
  using getUserSettings_never_absent[of userId resp insertErr now1 now2]
    getUserSettings_no_row[of resp userId now1 now2] getUserSettings_row[of resp d userId insertErr now1 now2]
  by (auto simp: default_row) (simp_all add: defaultSettings_def)

theorem C9_getUserSettings_witness:
  "getUserSettings ''u1'' \<lparr> data = None, error = Some ''PGRST116'' \<rparr> None ''t1'' ''t2''
     = (Inr (Some \<lparr> settings_user_id = ''u1'', notifications = True, reminder_time = ''09:00'',
                    daily_goal = 2, weekly_goal = 14, theme = Light, language = En,
                    settings_created_at = ''t1'', settings_updated_at = ''t2'' \<rparr>),
        [\<lparr> settings_user_id = ''u1'', notifications = True, reminder_time = ''09:00'',
           daily_goal = 2, weekly_goal = 14, theme = Light, language = En \<rparr>])
   \<and> getUserSettings ''u1'' \<lparr> data = Some exampleSettings, error = None \<rparr> None ''t1'' ''t2''
     = (Inr (Some exampleSettings), [])"
proof -
  let ?norow = "\<lparr> data = None, error = Some ''PGRST116'' \<rparr> :: UserSettings Response"
  let ?row = "\<lparr> data = Some exampleSettings, error = None \<rparr> :: UserSettings Response"
  have h1: "(error ?norow = None \<or> error ?norow = Some ''PGRST116'') \<and> data ?norow = None
      \<and> (None :: string option) = None"
    by simp
  have h2: "(error ?row = None \<or> error ?row = Some ''PGRST116'') \<and> data ?row = Some exampleSettings"
    by simp
  from h1 h2
    C9_getUserSettings[of "''u1''" ?norow None "''t1''" "''t2''" exampleSettings]
    C9_getUserSettings[of "''u1''" ?row None "''t1''" "''t2''" exampleSettings]
  show ?thesis by blast
qed

end
